theory Spec2Isabelle
  imports Main
begin

section \<open>The path functions of \<open>os.path\<close> used by \<open>dmg_settings.py\<close>\<close>

text \<open>
  \<open>dmg_settings.py\<close> is a settings module for a macOS disk-image builder, so \<open>os.path\<close>
  is the POSIX flavour of the Python standard library. The module calls \<open>os.path.abspath\<close>
  and \<open>os.path.join\<close>; both are embedded below after the library's own code, on Python
  \<open>str\<close> values (character lists). The only input from the outside world is the current
  working directory that \<open>os.getcwd()\<close> returns inside \<open>abspath\<close>; it is the
  parameter \<open>cwd\<close> everywhere.
\<close>

text \<open>\<open>s.startswith(p)\<close> and \<open>s.endswith(p)\<close>.\<close>

fun startswith :: "string \<Rightarrow> string \<Rightarrow> bool" where
  "startswith s [] = True"
| "startswith [] (p # ps) = False"
| "startswith (c # cs) (p # ps) = (c = p \<and> startswith cs ps)"

definition endswith :: "string \<Rightarrow> string \<Rightarrow> bool" where
  "endswith s p = startswith (rev s) (rev p)"

text \<open>\<open>posixpath.isabs\<close>: the path starts with the separator.\<close>

definition isabs :: "string \<Rightarrow> bool" where
  "isabs s = startswith s ''/''"

text \<open>
  \<open>posixpath.join(a, b)\<close> with one extra component: an absolute \<open>b\<close> replaces the
  path; an empty path or one that already ends with the separator takes \<open>b\<close> as it is;
  otherwise the separator is put in between.
\<close>

definition join :: "string \<Rightarrow> string \<Rightarrow> string" where
  "join a b =
     (if startswith b ''/'' then b
      else if a = [] \<or> endswith a ''/'' then a @ b
      else a @ ''/'' @ b)"

text \<open>\<open>path.split('/')\<close>: the pieces between separators, empty pieces included.\<close>

fun split_sep :: "string \<Rightarrow> string list" where
  "split_sep [] = [[]]"
| "split_sep (c # cs) =
     (if c = CHR ''/'' then [] # split_sep cs
      else (case split_sep cs of
              [] \<Rightarrow> [[c]]
            | w # ws \<Rightarrow> (c # w) # ws))"

text \<open>\<open>'/'.join(comps)\<close>.\<close>

fun sep_join :: "string list \<Rightarrow> string" where
  "sep_join [] = []"
| "sep_join [w] = w"
| "sep_join (w # v # ws) = w @ ''/'' @ sep_join (v # ws)"

text \<open>
  One round of the loop of \<open>posixpath.normpath\<close> over the components: empty and
  \<open>.\<close> components are skipped, \<open>..\<close> removes the previous component when there is
  one to remove, and is kept in a relative path that has nothing left to remove.
\<close>

definition normpath_step :: "nat \<Rightarrow> string list \<Rightarrow> string \<Rightarrow> string list" where
  "normpath_step initial_slashes new_comps c =
     (if c = [] \<or> c = ''.'' then new_comps
      else if c \<noteq> ''..'' \<or> (initial_slashes = 0 \<and> new_comps = [])
                \<or> (new_comps \<noteq> [] \<and> last new_comps = ''..'')
           then new_comps @ [c]
      else if new_comps \<noteq> [] then butlast new_comps
      else new_comps)"

text \<open>
  \<open>posixpath.normpath\<close>. The empty path is \<open>.\<close>; one leading slash, or exactly two,
  are kept, three or more count as one; an empty result is \<open>.\<close>.
\<close>

definition normpath :: "string \<Rightarrow> string" where
  "normpath path =
     (if path = [] then ''.''
      else
        let initial_slashes =
              (if startswith path ''/'' then
                 (if startswith path ''//'' \<and> \<not> startswith path ''///'' then 2 else 1)
               else (0::nat));
            comps = foldl (normpath_step initial_slashes) [] (split_sep path);
            joined = sep_join comps;
            res = (if initial_slashes \<noteq> 0
                   then replicate initial_slashes (CHR ''/'') @ joined
                   else joined)
        in if res = [] then ''.'' else res)"

text \<open>
  \<open>posixpath.abspath(path)\<close>, with the result of \<open>os.getcwd()\<close> as \<open>cwd\<close>: a relative
  path is joined onto the working directory, and the result is normalised.
\<close>

definition abspath :: "string \<Rightarrow> string \<Rightarrow> string" where
  "abspath cwd path =
     normpath (if \<not> startswith path ''/'' then join cwd path else path)"

text \<open>
  \<open>posixpath.basename(p)\<close> is \<open>p[p.rfind('/') + 1:]\<close>: what follows the last
  separator, the whole path when there is none.
\<close>

definition basename :: "string \<Rightarrow> string" where
  "basename p = rev (takeWhile (\<lambda>c. c \<noteq> CHR ''/'') (rev p))"


section \<open>Python dictionaries\<close>

text \<open>
  A \<open>dict\<close> keeps its entries in insertion order; assigning to a key that is present
  replaces the value where the key stands. A dictionary display \<open>{k1: v1, k2: v2, ...}\<close>
  assigns its entries from left to right into an empty dictionary.
\<close>

fun setitem :: "('k \<times> 'v) list \<Rightarrow> 'k \<Rightarrow> 'v \<Rightarrow> ('k \<times> 'v) list" where
  "setitem [] k v = [(k, v)]"
| "setitem ((k', v') # d) k v =
     (if k' = k then (k, v) # d else (k', v') # setitem d k v)"

definition dict_display :: "('k \<times> 'v) list \<Rightarrow> ('k \<times> 'v) list" where
  "dict_display entries = foldl (\<lambda>d (k, v). setitem d k v) [] entries"

text \<open>\<open>list(d.keys())\<close>, \<open>list(d.values())\<close> and \<open>d.get(k)\<close>.\<close>

definition dict_keys :: "('k \<times> 'v) list \<Rightarrow> 'k list" where
  "dict_keys d = map fst d"

definition dict_values :: "('k \<times> 'v) list \<Rightarrow> 'v list" where
  "dict_values d = map snd d"

definition dict_get :: "('k \<times> 'v) list \<Rightarrow> 'k \<Rightarrow> 'v option" where
  "dict_get d k = map_of d k"


section \<open>The settings of \<open>dmg_settings.py\<close>\<close>

text \<open>\<open>base_dir = os.path.abspath('.')\<close>\<close>

definition base_dir :: "string \<Rightarrow> string" where
  "base_dir cwd = abspath cwd ''.''"

text \<open>The content mapping: source path to display label.\<close>

definition files :: "string \<Rightarrow> (string \<times> string) list" where
  "files cwd = dict_display
     [(join (base_dir cwd) ''dist/gui_main.app'', ''gui_main.app''),
      (join (base_dir cwd) ''dist/gui_main/_internal'', ''_internal'')]"

text \<open>The symbolic links: display label to target path.\<close>

definition symlinks :: "(string \<times> string) list" where
  "symlinks = dict_display [(''Aplicaciones'', ''/Applications'')]"

text \<open>The icon positions: display label to coordinate pair.\<close>

definition icon_locations :: "(string \<times> (int \<times> int)) list" where
  "icon_locations = dict_display
     [(''gui_main.app'', (140, 120)),
      (''Aplicaciones'', (460, 120)),
      (''_internal'', (300, 400))]"

text \<open>The appearance: window rectangle (origin, size), icon size and volume name.\<close>

definition window_rect :: "(int \<times> int) \<times> (int \<times> int)" where
  "window_rect = ((200, 200), (600, 350))"

definition icon_size :: int where
  "icon_size = 100"

definition volume_name :: string where
  "volume_name = ''Instalador Transparente''"

text \<open>The size component of the window rectangle.\<close>

definition window_width :: int where
  "window_width = fst (snd window_rect)"

definition window_height :: int where
  "window_height = snd (snd window_rect)"



section \<open>The module namespace\<close>

text \<open>
  Python values as far as the module builds them, and the global namespace the module
  body leaves behind: every statement of the module binds one name, in the order of the
  file. \<open>import os.path\<close> binds the name \<open>os\<close> to the package.
\<close>

datatype pyval =
    PStr string
  | PInt int
  | PTuple "pyval list"
  | PDict "(pyval \<times> pyval) list"
  | PModule string

definition str_dict :: "(string \<times> string) list \<Rightarrow> pyval" where
  "str_dict d = PDict (map (\<lambda>(k, v). (PStr k, PStr v)) d)"

definition int_pair :: "int \<times> int \<Rightarrow> pyval" where
  "int_pair p = PTuple [PInt (fst p), PInt (snd p)]"

definition dmg_settings :: "string \<Rightarrow> (string \<times> pyval) list" where
  "dmg_settings cwd =
     (let g = setitem [] ''os'' (PModule ''os'');
          g = setitem g ''base_dir'' (PStr (base_dir cwd));
          g = setitem g ''files'' (str_dict (files cwd));
          g = setitem g ''symlinks'' (str_dict symlinks);
          g = setitem g ''icon_locations''
                (PDict (map (\<lambda>(k, p). (PStr k, int_pair p)) icon_locations));
          g = setitem g ''window_rect''
                (PTuple [int_pair (fst window_rect), int_pair (snd window_rect)]);
          g = setitem g ''icon_size'' (PInt icon_size);
          g = setitem g ''volume_name'' (PStr volume_name)
      in g)"

text \<open>The shapes a value can have: string, absolute path, integer, pair, dictionary.\<close>

fun is_str :: "pyval \<Rightarrow> bool" where
  "is_str (PStr s) = True"
| "is_str v = False"

fun is_abs_path :: "pyval \<Rightarrow> bool" where
  "is_abs_path (PStr s) = isabs s"
| "is_abs_path v = False"

fun is_int :: "pyval \<Rightarrow> bool" where
  "is_int (PInt i) = True"
| "is_int v = False"

fun is_pair_of :: "(pyval \<Rightarrow> bool) \<Rightarrow> pyval \<Rightarrow> bool" where
  "is_pair_of P (PTuple [a, b]) = (P a \<and> P b)"
| "is_pair_of P v = False"

fun is_dict_of :: "(pyval \<Rightarrow> bool) \<Rightarrow> (pyval \<Rightarrow> bool) \<Rightarrow> pyval \<Rightarrow> bool" where
  "is_dict_of K V (PDict d) = list_all (\<lambda>(k, v). K k \<and> V v) d"
| "is_dict_of K V v = False"

text \<open>The name is bound in the namespace, to a value of the given shape.\<close>

definition has_shape :: "(string \<times> pyval) list \<Rightarrow> string \<Rightarrow> (pyval \<Rightarrow> bool) \<Rightarrow> bool" where
  "has_shape g name P = (case dict_get g name of Some v \<Rightarrow> P v | None \<Rightarrow> False)"


section \<open>Rectangles\<close>

text \<open>
  The module holds coordinates and no geometry of its own; the two notions of "within" that
  the specification uses are written out here. A rectangle is (origin, size), as in
  \<open>window_rect\<close>. \<open>in_rect\<close> is containment of a point in a rectangle, both in one
  coordinate system, borders included. The drawable area of a window is its width-by-height
  extent, seen from the window's own corner. \<open>to_screen\<close> moves a position that is
  relative to the window's origin into the coordinate system of the origin.
\<close>

definition in_rect :: "(int \<times> int) \<times> (int \<times> int) \<Rightarrow> int \<times> int \<Rightarrow> bool" where
  "in_rect r p =
     (fst (fst r) \<le> fst p \<and> fst p \<le> fst (fst r) + fst (snd r)
      \<and> snd (fst r) \<le> snd p \<and> snd p \<le> snd (fst r) + snd (snd r))"

definition in_drawable_area :: "(int \<times> int) \<times> (int \<times> int) \<Rightarrow> int \<times> int \<Rightarrow> bool" where
  "in_drawable_area r p = in_rect ((0, 0), snd r) p"

definition to_screen :: "(int \<times> int) \<times> (int \<times> int) \<Rightarrow> int \<times> int \<Rightarrow> int \<times> int" where
  "to_screen r p = (fst (fst r) + fst p, snd (fst r) + snd p)"


section \<open>The dictionaries, entry by entry\<close>

lemma startswith_sep: "startswith s ''/'' \<longleftrightarrow> (\<exists>t. s = CHR ''/'' # t)"
  by (cases s) auto

lemma join_inj_right:
  "\<not> startswith s ''/'' \<Longrightarrow> \<not> startswith t ''/'' \<Longrightarrow> join b s = join b t \<longleftrightarrow> s = t"
  by (simp add: join_def)

text \<open>The two keys of \<open>files\<close> differ in every working directory, so both entries stay.\<close>

lemma files_unfold:
  "files cwd =
     [(join (base_dir cwd) ''dist/gui_main.app'', ''gui_main.app''),
      (join (base_dir cwd) ''dist/gui_main/_internal'', ''_internal'')]"
  by (simp add: files_def dict_display_def join_inj_right)

lemma symlinks_unfold: "symlinks = [(''Aplicaciones'', ''/Applications'')]"
  by (simp add: symlinks_def dict_display_def)

lemma icon_locations_unfold:
  "icon_locations =
     [(''gui_main.app'', (140, 120)), (''Aplicaciones'', (460, 120)),
      (''_internal'', (300, 400))]"
  by (simp add: icon_locations_def dict_display_def)

lemma dmg_settings_unfold:
  "dmg_settings cwd =
     [(''os'', PModule ''os''),
      (''base_dir'', PStr (base_dir cwd)),
      (''files'', str_dict (files cwd)),
      (''symlinks'', str_dict symlinks),
      (''icon_locations'', PDict (map (\<lambda>(k, p). (PStr k, int_pair p)) icon_locations)),
      (''window_rect'', PTuple [int_pair (fst window_rect), int_pair (snd window_rect)]),
      (''icon_size'', PInt icon_size),
      (''volume_name'', PStr volume_name)]"
  by (simp add: dmg_settings_def)

text \<open>In the working directory \<open>/Users/dev/alphasvg\<close>.\<close>

lemma base_dir_dev: "base_dir ''/Users/dev/alphasvg'' = ''/Users/dev/alphasvg''"
  by code_simp

lemma files_dev:
  "files ''/Users/dev/alphasvg'' =
     [(''/Users/dev/alphasvg/dist/gui_main.app'', ''gui_main.app''),
      (''/Users/dev/alphasvg/dist/gui_main/_internal'', ''_internal'')]"
  by code_simp


section \<open>Absolute paths and final components\<close>

lemma isabs_join: "isabs a \<Longrightarrow> isabs (join a b)"
  by (auto simp add: isabs_def join_def startswith_sep)

lemma isabs_normpath: "isabs p \<Longrightarrow> isabs (normpath p)"
  by (auto simp add: isabs_def normpath_def Let_def startswith_sep numeral_2_eq_2)

lemma isabs_base_dir: "isabs cwd \<Longrightarrow> isabs (base_dir cwd)"
  by (simp add: base_dir_def abspath_def isabs_join isabs_normpath)

lemma basename_join_app: "basename (join b ''dist/gui_main.app'') = ''gui_main.app''"
  by (simp add: basename_def join_def)

lemma basename_join_internal: "basename (join b ''dist/gui_main/_internal'') = ''_internal''"
  by (simp add: basename_def join_def)

section \<open>Window geometry\<close>

text \<open>
  C3: the width and the height of the window (the second pair of \<open>window_rect\<close>) are
  positive, and \<open>icon_size\<close> is positive and at most the smaller of the two.
\<close>

theorem window_and_icon_size_positive:
  "0 < window_width \<and> 0 < window_height \<and> 0 < icon_size
     \<and> icon_size \<le> min window_width window_height"
  by (simp add: window_width_def window_height_def window_rect_def icon_size_def)

text \<open>
  C4, as stated, fails: \<open>gui_main.app\<close> is placed at (140, 120), and that point is not
  inside the rectangle with origin (200, 200) and size (600, 350), whose left border is at
  200 and whose top border is at 200.
\<close>

theorem gui_main_app_outside_window_rect:
  "dict_get icon_locations ''gui_main.app'' = Some (140, 120)
     \<and> \<not> in_rect window_rect (140, 120)"
  by (simp add: dict_get_def icon_locations_unfold in_rect_def window_rect_def)

text \<open>
  C4, amended: the position (140, 120) of \<open>gui_main.app\<close>, taken relative to the origin
  of the window, lies within the 600 by 350 extent of the window; moved by the origin
  (200, 200) it is the point (340, 320), which lies within the rectangle of
  \<open>window_rect\<close>.
\<close>

theorem gui_main_app_within_window_extent:
  "dict_get icon_locations ''gui_main.app'' = Some (140, 120)
     \<and> in_drawable_area window_rect (140, 120)
     \<and> to_screen window_rect (140, 120) = (340, 320)
     \<and> in_rect window_rect (to_screen window_rect (140, 120))"
  by (simp add: dict_get_def icon_locations_unfold in_drawable_area_def in_rect_def
      to_screen_def window_rect_def)


section \<open>Icon positions and the drawable area\<close>

text \<open>
  C2, as stated, fails: the entry \<open>_internal\<close> is placed at (300, 400), below the 350
  pixels of the window's height. The module says why: the icon is put far away so that
  it does not get in the way.
\<close>

theorem internal_icon_below_window:
  "dict_get icon_locations ''_internal'' = Some (300, 400)
     \<and> snd (snd window_rect) = 350
     \<and> \<not> in_drawable_area window_rect (300, 400)"
  by (simp add: dict_get_def icon_locations_unfold in_drawable_area_def in_rect_def
      window_rect_def)

text \<open>
  C2, amended: every entry of \<open>icon_locations\<close> other than \<open>_internal\<close> has integer
  coordinates within the 600 by 350 extent of the window.
\<close>

theorem icons_within_window_extent:
  assumes "(l, p) \<in> set icon_locations" and "l \<noteq> ''_internal''"
  shows "in_drawable_area window_rect p"
  using assms
  by (auto simp add: icon_locations_unfold in_drawable_area_def in_rect_def window_rect_def)

theorem icons_within_window_extent_witness:
  "(''Aplicaciones'', (460, 120)) \<in> set icon_locations
     \<and> ''Aplicaciones'' \<noteq> ''_internal''
     \<and> in_drawable_area window_rect (460, 120)"
proof -
  have e: "(''Aplicaciones'', (460, 120)) \<in> set icon_locations"
    by (simp add: icon_locations_unfold)
  have n: "''Aplicaciones'' \<noteq> ''_internal''"
    by simp
  show ?thesis
    using e n icons_within_window_extent [OF e n] by simp
qed


section \<open>Labels\<close>

text \<open>
  C1: every label that is a value of \<open>files\<close> or a key of \<open>symlinks\<close> is a key of
  \<open>icon_locations\<close>, in every working directory.
\<close>

theorem icon_labels_cover_content_and_symlinks:
  "set (dict_values (files cwd)) \<union> set (dict_keys symlinks)
     \<subseteq> set (dict_keys icon_locations)"
  by (simp add: files_unfold symlinks_unfold icon_locations_unfold dict_values_def
      dict_keys_def)

theorem icon_labels_cover_content_and_symlinks_witness:
  "dict_values (files ''/Users/dev/alphasvg'') = [''gui_main.app'', ''_internal'']
     \<and> dict_keys symlinks = [''Aplicaciones'']
     \<and> set (dict_values (files ''/Users/dev/alphasvg'')) \<union> set (dict_keys symlinks)
         \<subseteq> set (dict_keys icon_locations)"
  using icon_labels_cover_content_and_symlinks [of "''/Users/dev/alphasvg''"]
  by (simp add: files_dev symlinks_unfold dict_values_def dict_keys_def)

text \<open>
  C10: the keys of \<open>icon_locations\<close> are exactly the values of \<open>files\<close> together
  with the keys of \<open>symlinks\<close>: no icon position is given to a label that is neither.
\<close>

theorem icon_labels_are_content_and_symlinks:
  "set (dict_keys icon_locations)
     = set (dict_values (files cwd)) \<union> set (dict_keys symlinks)"
  by (auto simp add: files_unfold symlinks_unfold icon_locations_unfold dict_values_def
      dict_keys_def)

theorem icon_labels_are_content_and_symlinks_witness:
  "dict_keys icon_locations = [''gui_main.app'', ''Aplicaciones'', ''_internal'']
     \<and> set (dict_keys icon_locations)
         = set (dict_values (files ''/tmp/build'')) \<union> set (dict_keys symlinks)"
  using icon_labels_are_content_and_symlinks [of "''/tmp/build''"]
  by (simp add: icon_locations_unfold dict_keys_def)

text \<open>
  C7: the display labels of \<open>files\<close> are pairwise distinct, and each of them is a key of
  \<open>icon_locations\<close>.
\<close>

theorem content_labels_distinct_and_placed:
  "distinct (dict_values (files cwd))
     \<and> set (dict_values (files cwd)) \<subseteq> set (dict_keys icon_locations)"
  by (simp add: files_unfold icon_locations_unfold dict_values_def dict_keys_def)

theorem content_labels_distinct_and_placed_witness:
  "length (dict_values (files ''/Users/dev/alphasvg'')) = 2
     \<and> distinct (dict_values (files ''/Users/dev/alphasvg''))
     \<and> set (dict_values (files ''/Users/dev/alphasvg'')) \<subseteq> set (dict_keys icon_locations)"
  using content_labels_distinct_and_placed [of "''/Users/dev/alphasvg''"]
  by (simp add: files_dev dict_values_def)

text \<open>
  C9: in every entry of \<open>files\<close> the display label is the final component of the source
  path.
\<close>

theorem content_label_is_basename:
  assumes "(k, v) \<in> set (files cwd)"
  shows "basename k = v"
  using assms by (auto simp add: files_unfold basename_join_app basename_join_internal)

theorem content_label_is_basename_witness:
  "(''/Users/dev/alphasvg/dist/gui_main/_internal'', ''_internal'')
       \<in> set (files ''/Users/dev/alphasvg'')
     \<and> basename ''/Users/dev/alphasvg/dist/gui_main/_internal'' = ''_internal''"
proof -
  have e: "(''/Users/dev/alphasvg/dist/gui_main/_internal'', ''_internal'')
             \<in> set (files ''/Users/dev/alphasvg'')"
    by (simp add: files_dev)
  show ?thesis
    using e content_label_is_basename [OF e] by simp
qed


section \<open>The names of the module and their shapes\<close>

text \<open>
  C5, as stated, fails: besides the six settings the module binds two more top-level
  names, \<open>os\<close> (by its import) and \<open>base_dir\<close>, so the set of its top-level names is
  not the set of the six.
\<close>

theorem module_names_not_only_settings:
  "set (dict_keys (dmg_settings ''/Users/dev/alphasvg''))
     \<noteq> {''files'', ''symlinks'', ''icon_locations'', ''window_rect'', ''icon_size'',
         ''volume_name''}"
proof
  assume six: "set (dict_keys (dmg_settings ''/Users/dev/alphasvg''))
     = {''files'', ''symlinks'', ''icon_locations'', ''window_rect'', ''icon_size'',
        ''volume_name''}"
  have "''base_dir'' \<in> set (dict_keys (dmg_settings ''/Users/dev/alphasvg''))"
    by (simp add: dmg_settings_unfold dict_keys_def)
  with six show False by simp
qed

text \<open>
  C5, amended: the top-level names of the module are \<open>os\<close>, \<open>base_dir\<close> and the six
  settings \<open>files\<close>, \<open>symlinks\<close>, \<open>icon_locations\<close>, \<open>window_rect\<close>, \<open>icon_size\<close>
  and \<open>volume_name\<close>. When the working directory is an absolute path, as
  \<open>os.getcwd()\<close> returns it, \<open>base_dir\<close> is an absolute path, \<open>files\<close> maps absolute
  paths to strings, \<open>symlinks\<close> maps strings to strings, \<open>icon_locations\<close> maps
  strings to pairs of integers, \<open>window_rect\<close> is a pair of pairs of integers,
  \<open>icon_size\<close> is an integer and \<open>volume_name\<close> is a string.
\<close>

theorem module_names_and_shapes:
  assumes "isabs cwd"
  shows "dict_keys (dmg_settings cwd) =
           [''os'', ''base_dir'', ''files'', ''symlinks'', ''icon_locations'',
            ''window_rect'', ''icon_size'', ''volume_name'']
     \<and> has_shape (dmg_settings cwd) ''base_dir'' is_abs_path
     \<and> has_shape (dmg_settings cwd) ''files'' (is_dict_of is_abs_path is_str)
     \<and> has_shape (dmg_settings cwd) ''symlinks'' (is_dict_of is_str is_str)
     \<and> has_shape (dmg_settings cwd) ''icon_locations'' (is_dict_of is_str (is_pair_of is_int))
     \<and> has_shape (dmg_settings cwd) ''window_rect'' (is_pair_of (is_pair_of is_int))
     \<and> has_shape (dmg_settings cwd) ''icon_size'' is_int
     \<and> has_shape (dmg_settings cwd) ''volume_name'' is_str"
  using assms
  by (simp add: dmg_settings_unfold dict_keys_def has_shape_def dict_get_def str_dict_def
      int_pair_def files_unfold symlinks_unfold icon_locations_unfold isabs_join
      isabs_base_dir)

theorem module_names_and_shapes_witness:
  "isabs ''/Users/dev/alphasvg''
     \<and> dict_keys (dmg_settings ''/Users/dev/alphasvg'') =
           [''os'', ''base_dir'', ''files'', ''symlinks'', ''icon_locations'',
            ''window_rect'', ''icon_size'', ''volume_name'']
     \<and> has_shape (dmg_settings ''/Users/dev/alphasvg'') ''files''
           (is_dict_of is_abs_path is_str)
     \<and> has_shape (dmg_settings ''/Users/dev/alphasvg'') ''icon_locations''
           (is_dict_of is_str (is_pair_of is_int))"
proof -
  have a: "isabs ''/Users/dev/alphasvg''"
    by (simp add: isabs_def)
  show ?thesis
    using a module_names_and_shapes [OF a] by simp
qed


section \<open>Dependence on the working directory\<close>

text \<open>
  C6, as stated, fails: the keys of \<open>files\<close> are built from \<open>base_dir\<close>, the absolute
  path of the working directory, so two working directories give two values of \<open>files\<close>.
\<close>

theorem files_differ_between_working_directories:
  "dict_get (dmg_settings ''/Users/dev/alphasvg'') ''files''
     \<noteq> dict_get (dmg_settings ''/tmp/build'') ''files''"
  by code_simp

text \<open>
  C6, amended: in any two working directories the module gives identical values to
  \<open>symlinks\<close>, \<open>icon_locations\<close>, \<open>window_rect\<close>, \<open>icon_size\<close> and \<open>volume_name\<close>;
  \<open>files\<close> has the same display labels in the same order, and its keys are the two
  fixed relative paths joined onto \<open>base_dir\<close>.
\<close>

theorem settings_fixed_up_to_base_dir:
  "dict_get (dmg_settings c1) ''symlinks'' = dict_get (dmg_settings c2) ''symlinks''
     \<and> dict_get (dmg_settings c1) ''icon_locations''
         = dict_get (dmg_settings c2) ''icon_locations''
     \<and> dict_get (dmg_settings c1) ''window_rect'' = dict_get (dmg_settings c2) ''window_rect''
     \<and> dict_get (dmg_settings c1) ''icon_size'' = dict_get (dmg_settings c2) ''icon_size''
     \<and> dict_get (dmg_settings c1) ''volume_name'' = dict_get (dmg_settings c2) ''volume_name''
     \<and> dict_get (dmg_settings c1) ''volume_name'' = Some (PStr volume_name)
     \<and> dict_get (dmg_settings c1) ''files'' = Some (str_dict (files c1))
     \<and> dict_values (files c1) = dict_values (files c2)
     \<and> dict_keys (files c1)
         = map (join (base_dir c1)) [''dist/gui_main.app'', ''dist/gui_main/_internal'']"
  by (simp add: dmg_settings_unfold dict_get_def files_unfold dict_values_def dict_keys_def)

theorem settings_fixed_up_to_base_dir_witness:
  "dict_get (dmg_settings ''/Users/dev/alphasvg'') ''icon_size'' = Some (PInt 100)
     \<and> dict_get (dmg_settings ''/tmp/build'') ''icon_size'' = Some (PInt 100)
     \<and> dict_values (files ''/Users/dev/alphasvg'') = dict_values (files ''/tmp/build'')
     \<and> dict_keys (files ''/Users/dev/alphasvg'')
         = [''/Users/dev/alphasvg/dist/gui_main.app'',
            ''/Users/dev/alphasvg/dist/gui_main/_internal'']"
proof -
  have same_labels:
    "dict_values (files ''/Users/dev/alphasvg'') = dict_values (files ''/tmp/build'')"
    using settings_fixed_up_to_base_dir [of "''/Users/dev/alphasvg''" "''/tmp/build''"]
    by blast
  have "dict_get (dmg_settings ''/Users/dev/alphasvg'') ''icon_size'' = Some (PInt 100)"
    and "dict_get (dmg_settings ''/tmp/build'') ''icon_size'' = Some (PInt 100)"
    by (simp_all add: dmg_settings_unfold dict_get_def icon_size_def)
  moreover have "dict_keys (files ''/Users/dev/alphasvg'')
         = [''/Users/dev/alphasvg/dist/gui_main.app'',
            ''/Users/dev/alphasvg/dist/gui_main/_internal'']"
    by (simp add: files_dev dict_keys_def)
  ultimately show ?thesis
    using same_labels by blast
qed

end
